theory Spec2Isabelle
  imports Main
begin

section \<open>JavaScript values\<close>

text \<open>
  The client of \<^verbatim>\<open>src/index.js\<close> handles dynamically typed values: identifiers,
  request bodies, decoded JSON responses, failure objects and callbacks. They are
  modelled by one datatype.

  \<^item> A number is given by its decimal form, the string that
    \<open>Number.prototype.toString\<close> returns for it, such as \<open>42\<close>, \<open>-7\<close>, \<open>0.5\<close>,
    \<open>1e+21\<close>, \<open>Infinity\<close> or \<open>NaN\<close>. That form determines the double up to the sign of
    zero, which nothing here tells apart, and no arithmetic is done on numbers.
  \<^item> A plain object is the list of its own data properties, in insertion order.
  \<^item> An \<open>Error\<close> instance is the list of its own properties, where the name of a
    subclass such as \<open>TypeError\<close> is an entry of the list.
  \<^item> A function is the list of its own properties and its source text, which is what
    \<open>Function.prototype.toString\<close> returns.
  \<^item> Symbols, accessors, proxies and objects that override \<open>toString\<close> are not
    represented.
\<close>

datatype jsval =
    JUndefined
  | JNull
  | JBool bool
  | JNum string
  | JStr string
  | JArr "jsval list"
  | JObj "(string \<times> jsval) list"
  | JErr "(string \<times> jsval) list"
  | JFun "(string \<times> jsval) list" string

text \<open>\<open>ToBoolean\<close>: the falsy values are \<open>undefined\<close>, \<open>null\<close>, \<open>false\<close>, the numbers
  \<open>0\<close> and \<open>NaN\<close>, and the empty string.\<close>

fun truthy :: "jsval \<Rightarrow> bool" where
  "truthy JUndefined = False"
| "truthy JNull = False"
| "truthy (JBool b) = b"
| "truthy (JNum n) = (n \<noteq> ''0'' \<and> n \<noteq> ''NaN'')"
| "truthy (JStr s) = (s \<noteq> [])"
| "truthy _ = True"

text \<open>The \<open>typeof\<close> operator.\<close>

fun typeof :: "jsval \<Rightarrow> string" where
  "typeof JUndefined = ''undefined''"
| "typeof JNull = ''object''"
| "typeof (JBool b) = ''boolean''"
| "typeof (JNum n) = ''number''"
| "typeof (JStr s) = ''string''"
| "typeof (JFun fs src) = ''function''"
| "typeof _ = ''object''"

subsection \<open>Conversion to strings\<close>

text \<open>
  A natural number in decimal notation, which is the form of an index and of the length
  of a string or an array.
\<close>

definition digit_char :: "nat \<Rightarrow> char" where
  "digit_char n = ''0123456789'' ! n"

function string_of_nat :: "nat \<Rightarrow> string" where
  "string_of_nat n =
     (if n < 10 then [digit_char n]
      else string_of_nat (n div 10) @ [digit_char (n mod 10)])"
  by pat_completeness auto
termination
  by (relation "measure id") auto

fun join :: "string \<Rightarrow> string list \<Rightarrow> string" where
  "join sep [] = []"
| "join sep [s] = s"
| "join sep (s # t # ss) = s @ sep @ join sep (t # ss)"

text \<open>
  \<open>js_toString\<close> is the abstract operation \<open>ToString\<close>, used by template literals, and
  for every value other than \<open>undefined\<close> and \<open>null\<close> also the result of the method call
  \<open>v.toString()\<close>: the model has no object that overrides \<open>toString\<close>, so the method
  called is the built-in one of the value's kind. A number prints as its decimal form.
  \<open>Array.prototype.toString\<close> joins the elements with commas and renders \<open>undefined\<close>
  and \<open>null\<close> elements as empty; \<open>Error.prototype.toString\<close> combines \<open>name\<close> (default
  \<open>Error\<close>) and \<open>message\<close> (default empty).
\<close>

fun js_toString :: "jsval \<Rightarrow> string" where
  "js_toString JUndefined = ''undefined''"
| "js_toString JNull = ''null''"
| "js_toString (JBool b) = (if b then ''true'' else ''false'')"
| "js_toString (JNum n) = n"
| "js_toString (JStr s) = s"
| "js_toString (JArr xs) =
     join '',''
       (map (\<lambda>x. if x = JUndefined \<or> x = JNull then [] else js_toString x) xs)"
| "js_toString (JObj fs) = ''[object Object]''"
| "js_toString (JErr fs) =
     (let ss = map (\<lambda>(k, v). (k, js_toString v)) fs;
          name = (case map_of fs ''name'' of
                    None \<Rightarrow> ''Error''
                  | Some JUndefined \<Rightarrow> ''Error''
                  | Some _ \<Rightarrow> the (map_of ss ''name''));
          msg = (case map_of fs ''message'' of
                   None \<Rightarrow> []
                 | Some JUndefined \<Rightarrow> []
                 | Some _ \<Rightarrow> the (map_of ss ''message''))
      in if name = [] then msg
         else if msg = [] then name
         else name @ '': '' @ msg)"
| "js_toString (JFun fs src) = src"

subsection \<open>Property access\<close>

text \<open>
  An entry named \<open>toString\<close> in a property list is not a property: the model has no
  object that overrides \<open>toString\<close>, and \<open>own\<close> gives the properties that a list stands
  for. A read of \<open>toString\<close> therefore finds the inherited method, as \<open>js_toString\<close>
  calls it.
\<close>

definition own :: "(string \<times> jsval) list \<Rightarrow> (string \<times> jsval) list" where
  "own fs = filter (\<lambda>(k, v). k \<noteq> ''toString'') fs"

text \<open>
  \<open>own_props v\<close> lists what a read \<open>v[k]\<close> finds without the built-in prototypes: the own
  properties of an object or a function, the \<open>length\<close> and the indices of a string or an
  array, and for an \<open>Error\<close> instance its own properties followed by the \<open>name\<close> and
  \<open>message\<close> that the language fixes for \<open>Error.prototype\<close>.
\<close>

fun own_props :: "jsval \<Rightarrow> (string \<times> jsval) list" where
  "own_props (JStr s) =
     (''length'', JNum (string_of_nat (length s)))
       # map (\<lambda>i. (string_of_nat i, JStr [s ! i])) [0..<length s]"
| "own_props (JArr xs) =
     (''length'', JNum (string_of_nat (length xs)))
       # map (\<lambda>i. (string_of_nat i, xs ! i)) [0..<length xs]"
| "own_props (JObj fs) = own fs"
| "own_props (JErr fs) = own fs @ [(''name'', JStr ''Error''), (''message'', JStr [])]"
| "own_props (JFun fs src) = own fs"
| "own_props _ = []"

text \<open>
  A read that finds no such property goes on through the prototype chain of the value,
  to the built-in prototypes of the engine (\<open>Object.prototype\<close>, \<open>Array.prototype\<close>,
  \<open>String.prototype\<close> and the others). Their members belong to the engine and differ
  between its versions, so they are a parameter of the model: a realm gives, for a
  value, the properties that it inherits, nearest first. Every function below that
  reads a property takes the realm as its first argument, and every theorem holds for
  every realm.
\<close>

type_synonym realm = "jsval \<Rightarrow> (string \<times> jsval) list"

definition props :: "realm \<Rightarrow> jsval \<Rightarrow> (string \<times> jsval) list" where
  "props r v = own_props v @ r v"

definition lookup_prop :: "realm \<Rightarrow> jsval \<Rightarrow> string \<Rightarrow> jsval" where
  "lookup_prop r v k =
     (case map_of (props r v) k of None \<Rightarrow> JUndefined | Some x \<Rightarrow> x)"

text \<open>
  Reading a property of \<open>undefined\<close> or \<open>null\<close> throws a \<open>TypeError\<close>. The wording of
  its message is the engine's; the one below is that of V8 at the time of the source.
\<close>

definition type_error_read :: "jsval \<Rightarrow> string \<Rightarrow> jsval" where
  "type_error_read v k =
     JErr [(''name'', JStr ''TypeError''),
           (''message'',
            JStr (''Cannot read property '' @ [CHR 0x27] @ k @ [CHR 0x27]
                    @ '' of '' @ js_toString v))]"

text \<open>A computation either throws (\<open>Inl\<close> the thrown value) or yields a value.\<close>

definition get_prop :: "realm \<Rightarrow> jsval \<Rightarrow> string \<Rightarrow> jsval + jsval" where
  "get_prop r v k =
     (if v = JUndefined \<or> v = JNull then Inl (type_error_read v k)
      else Inr (lookup_prop r v k))"

section \<open>The error table\<close>

text \<open>The constant \<open>ERROR\<close> of the source, one definition for each of its entries.\<close>

definition MISSING_ID :: jsval where
  "MISSING_ID =
     JObj [(''code'', JStr ''missing_id''),
           (''message'', JStr ''Missing `id` parameter'')]"

definition MISSING_FILE_ID :: jsval where
  "MISSING_FILE_ID =
     JObj [(''code'', JStr ''missing_file_id''),
           (''message'', JStr ''Missing `fileId` parameter'')]"

definition MISSING_BODY :: jsval where
  "MISSING_BODY =
     JObj [(''code'', JStr ''missing_body''),
           (''message'', JStr ''Missing `body` parameter'')]"

definition MISSING_CN :: jsval where
  "MISSING_CN =
     JObj [(''code'', JStr ''missing_cn''),
           (''message'', JStr ''Missing `cn` parameter'')]"

definition MISSING_ALIAS :: jsval where
  "MISSING_ALIAS =
     JObj [(''code'', JStr ''missing_body''),
           (''message'', JStr ''Missing `alias` parameter'')]"

definition MISSING_NAME :: jsval where
  "MISSING_NAME =
     JObj [(''code'', JStr ''missing_name''),
           (''message'', JStr ''Missing `name` parameter'')]"

definition MISSING_VALUE :: jsval where
  "MISSING_VALUE =
     JObj [(''code'', JStr ''missing_value''),
           (''message'', JStr ''Missing `value` parameter'')]"

section \<open>Promises, the transport and callbacks\<close>

text \<open>
  A promise ends fulfilled with a value, rejected with a value, or is never settled.
  The injected transport \<open>this.request\<close> is a function from the request description to
  what the call does: it returns a promise that resolves or rejects, or it throws at once.
\<close>

datatype outcome = Pending | Fulfilled jsval | Rejected jsval

datatype reply = Resolves jsval | Rejects jsval | ThrowsSync jsval

text \<open>
  What one call of a method does: the final state of the promise it returns, the
  request descriptions passed to \<open>this.request\<close> in order, and the invocations of a
  callback as triples of the function called and its arguments \<open>err\<close> and \<open>data\<close>.
  A callback is taken to return normally.
\<close>

record run =
  settled :: outcome
  requests :: "jsval list"
  callbacks :: "(jsval \<times> jsval \<times> jsval) list"

text \<open>A method call throws synchronously or returns its promise.\<close>

datatype call = Thrown jsval | Returned run

text \<open>
  The fields that the constructor sets on \<open>this\<close>. An instance on which the constructor
  returned early has neither: its \<open>token\<close> reads as \<open>undefined\<close> and it has no \<open>request\<close>.
\<close>

record client =
  token :: jsval
  request :: "(jsval \<Rightarrow> reply) option"

definition type_error_call :: "string \<Rightarrow> jsval" where
  "type_error_call f =
     JErr [(''name'', JStr ''TypeError''),
           (''message'', JStr (f @ '' is not a function''))]"

section \<open>The request pipeline\<close>

definition handleCallback :: "jsval \<Rightarrow> jsval \<Rightarrow> jsval \<Rightarrow> (jsval \<times> jsval \<times> jsval) list" where
  "handleCallback callback err data =
     (if typeof callback = ''function'' then [(callback, err, data)] else [])"

definition handleError :: "client \<Rightarrow> jsval \<Rightarrow> jsval \<Rightarrow> run" where
  "handleError this err callback =
     \<lparr>settled = Rejected err, requests = [],
      callbacks = handleCallback callback err JUndefined\<rparr>"

text \<open>
  The classification in the \<open>catch\<close> handler of \<open>handleRequest\<close>. Reading \<open>err.data\<close>
  throws when \<open>err\<close> is \<open>undefined\<close> or \<open>null\<close>; a truthy \<open>err.data\<close> is neither, so
  reading \<open>err.data.err\<close> cannot throw.
\<close>

definition errData :: "realm \<Rightarrow> jsval \<Rightarrow> jsval + jsval" where
  "errData r err =
     (case get_prop r err ''data'' of
        Inl e \<Rightarrow> Inl e
      | Inr d \<Rightarrow>
          if truthy d \<and> truthy (lookup_prop r d ''err'') then Inr (lookup_prop r d ''err'')
          else if truthy d then Inr d
          else Inr (JStr (js_toString err)))"

text \<open>
  The \<open>catch\<close> handler, entered while the returned promise is still pending. When the
  classification itself throws, neither \<open>reject\<close> nor the callback is reached and the
  promise stays pending.
\<close>

definition handleRequest_catch :: "realm \<Rightarrow> jsval \<Rightarrow> jsval list \<Rightarrow> jsval \<Rightarrow> run" where
  "handleRequest_catch r callback sent err =
     (case errData r err of
        Inl e \<Rightarrow> \<lparr>settled = Pending, requests = sent, callbacks = []\<rparr>
      | Inr d \<Rightarrow>
          \<lparr>settled = Rejected d, requests = sent,
           callbacks = handleCallback callback d JUndefined\<rparr>)"

text \<open>
  \<open>handleRequest\<close>. The executor of \<open>new Promise\<close> turns a synchronous throw of
  \<open>this.request(config)\<close>, or of the call of a missing \<open>this.request\<close>, into a rejection
  with the thrown value as it is. The \<open>catch\<close> handler is chained after \<open>then\<close>, so it
  also receives what the \<open>then\<close> handler throws when it reads \<open>res[selector]\<close>.
\<close>

definition handleRequest ::
  "realm \<Rightarrow> client \<Rightarrow> jsval \<Rightarrow> jsval \<Rightarrow> jsval \<Rightarrow> run" where
  "handleRequest r this config callback selector =
     (case request this of
        None \<Rightarrow>
          \<lparr>settled = Rejected (type_error_call ''this.request''), requests = [],
           callbacks = []\<rparr>
      | Some send \<Rightarrow>
          (case send config of
             ThrowsSync e \<Rightarrow> \<lparr>settled = Rejected e, requests = [config], callbacks = []\<rparr>
           | Rejects err \<Rightarrow> handleRequest_catch r callback [config] err
           | Resolves res \<Rightarrow>
               (case (if truthy selector then get_prop r res (js_toString selector)
                      else Inr res) of
                  Inl e \<Rightarrow> handleRequest_catch r callback [config] e
                | Inr data \<Rightarrow>
                    \<lparr>settled = Fulfilled data, requests = [config],
                     callbacks = handleCallback callback JUndefined data\<rparr>)))"

section \<open>Endpoint methods\<close>

text \<open>
  Each method is written with the realm and \<open>this\<close> as its first arguments. An
  argument that the caller leaves out is \<open>undefined\<close>. A template literal \<open>`...${x}`\<close> is the
  concatenation with \<open>js_toString x\<close>.
\<close>

definition getDeployments :: "realm \<Rightarrow> client \<Rightarrow> jsval \<Rightarrow> call" where
  "getDeployments r this callback =
     Returned (handleRequest r this
       (JObj [(''url'', JStr ''/now/deployments''), (''method'', JStr ''get'')])
       callback (JStr ''deployments''))"

definition getDeployment :: "realm \<Rightarrow> client \<Rightarrow> jsval \<Rightarrow> jsval \<Rightarrow> call" where
  "getDeployment r this id' callback =
     (if \<not> truthy id' then Returned (handleError this MISSING_ID callback)
      else Returned (handleRequest r this
        (JObj [(''url'', JStr (''/now/deployments/'' @ js_toString id')),
               (''method'', JStr ''get'')])
        callback JUndefined))"

definition createDeployment :: "realm \<Rightarrow> client \<Rightarrow> jsval \<Rightarrow> jsval \<Rightarrow> call" where
  "createDeployment r this body callback =
     (if \<not> truthy body then Returned (handleError this MISSING_BODY callback)
      else Returned (handleRequest r this
        (JObj [(''url'', JStr ''/now/deployments''), (''method'', JStr ''post''),
               (''body'', body)])
        callback JUndefined))"

definition deleteDeployment :: "realm \<Rightarrow> client \<Rightarrow> jsval \<Rightarrow> jsval \<Rightarrow> call" where
  "deleteDeployment r this id' callback =
     (if \<not> truthy id' then Returned (handleError this MISSING_ID callback)
      else Returned (handleRequest r this
        (JObj [(''url'', JStr (''/now/deployments/'' @ js_toString id')),
               (''method'', JStr ''delete'')])
        callback JUndefined))"

definition getFiles :: "realm \<Rightarrow> client \<Rightarrow> jsval \<Rightarrow> jsval \<Rightarrow> call" where
  "getFiles r this id' callback =
     (if \<not> truthy id' then Returned (handleError this MISSING_ID callback)
      else Returned (handleRequest r this
        (JObj [(''url'', JStr (''/now/deployments/'' @ js_toString id' @ ''/files'')),
               (''method'', JStr ''get'')])
        callback JUndefined))"

definition getFile :: "realm \<Rightarrow> client \<Rightarrow> jsval \<Rightarrow> jsval \<Rightarrow> jsval \<Rightarrow> call" where
  "getFile r this id' fileId callback =
     (if \<not> truthy id' then Returned (handleError this MISSING_ID callback)
      else if \<not> truthy fileId then Returned (handleError this MISSING_FILE_ID callback)
      else Returned (handleRequest r this
        (JObj [(''url'', JStr (''/now/deployments/'' @ js_toString id' @ ''/files/''
                                 @ js_toString fileId)),
               (''method'', JStr ''get'')])
        callback JUndefined))"

definition getDomains :: "realm \<Rightarrow> client \<Rightarrow> jsval \<Rightarrow> call" where
  "getDomains r this callback =
     Returned (handleRequest r this
       (JObj [(''url'', JStr ''/domains''), (''method'', JStr ''get'')])
       callback (JStr ''domains''))"

text \<open>
  \<open>addDomain\<close> reads \<open>domain.name\<close> before anything else, outside any promise: on
  \<open>undefined\<close> or \<open>null\<close> the read throws out of the method. Past that read \<open>domain\<close> is
  neither, and the later reads of its properties cannot throw.
\<close>

definition addDomain :: "realm \<Rightarrow> client \<Rightarrow> jsval \<Rightarrow> jsval \<Rightarrow> call" where
  "addDomain r this domain callback =
     (case get_prop r domain ''name'' of
        Inl e \<Rightarrow> Thrown e
      | Inr n \<Rightarrow>
          if typeof n \<noteq> ''string'' then Returned (handleError this MISSING_NAME callback)
          else Returned (handleRequest r this
            (JObj [(''url'', JStr ''/domains''), (''method'', JStr ''post''),
                   (''body'', JObj [(''name'', lookup_prop r domain ''name''),
                                    (''isExternal'', lookup_prop r domain ''isExternalDNS'')])])
            callback JUndefined))"

definition deleteDomain :: "realm \<Rightarrow> client \<Rightarrow> jsval \<Rightarrow> jsval \<Rightarrow> call" where
  "deleteDomain r this name callback =
     (if typeof name \<noteq> ''string'' then Returned (handleError this MISSING_NAME callback)
      else Returned (handleRequest r this
        (JObj [(''url'', JStr (''/domains/'' @ js_toString name)),
               (''method'', JStr ''delete'')])
        callback JUndefined))"

definition getDomainRecords :: "realm \<Rightarrow> client \<Rightarrow> jsval \<Rightarrow> jsval \<Rightarrow> call" where
  "getDomainRecords r this domain callback =
     Returned (handleRequest r this
       (JObj [(''url'', JStr (''/domains/'' @ js_toString domain @ ''/records'')),
              (''method'', JStr ''get'')])
       callback (JStr ''records''))"

definition addDomainRecord :: "realm \<Rightarrow> client \<Rightarrow> jsval \<Rightarrow> jsval \<Rightarrow> jsval \<Rightarrow> call" where
  "addDomainRecord r this domain recordData callback =
     Returned (handleRequest r this
       (JObj [(''url'', JStr (''/domains/'' @ js_toString domain @ ''/records'')),
              (''method'', JStr ''post''), (''data'', recordData)])
       callback JUndefined)"

definition deleteDomainRecord :: "realm \<Rightarrow> client \<Rightarrow> jsval \<Rightarrow> jsval \<Rightarrow> jsval \<Rightarrow> call" where
  "deleteDomainRecord r this domain recordId callback =
     Returned (handleRequest r this
       (JObj [(''url'', JStr (''/domains/'' @ js_toString domain @ ''/records/''
                                @ js_toString recordId)),
              (''method'', JStr ''delete'')])
       callback JUndefined)"

text \<open>
  \<open>getCertificates\<close> and \<open>getAliases\<close> branch on the runtime type of their first
  argument; the local variables \<open>url\<close> and \<open>_callback\<close> are the two components of the pair.
\<close>

definition getCertificates :: "realm \<Rightarrow> client \<Rightarrow> jsval \<Rightarrow> jsval \<Rightarrow> call" where
  "getCertificates r this cn callback =
     (let (url, callback') =
            (if typeof cn = ''function'' then (''/now/certs'', cn)
             else if typeof cn = ''string'' then (''/now/certs/'' @ js_toString cn, callback)
             else (''/now/certs'', callback))
      in Returned (handleRequest r this
           (JObj [(''url'', JStr url), (''method'', JStr ''get'')])
           callback' (JStr ''certs'')))"

text \<open>
  The three certificate methods below hand \<open>cn\<close>, not \<open>callback\<close>, to \<open>handleError\<close>,
  as the source does.
\<close>

definition createCertificate :: "realm \<Rightarrow> client \<Rightarrow> jsval \<Rightarrow> jsval \<Rightarrow> call" where
  "createCertificate r this cn callback =
     (if typeof cn \<noteq> ''string'' then Returned (handleError this MISSING_CN cn)
      else Returned (handleRequest r this
        (JObj [(''url'', JStr ''/now/certs''), (''method'', JStr ''post''),
               (''body'', JObj [(''domains'', JArr [cn])])])
        callback JUndefined))"

definition renewCertificate :: "realm \<Rightarrow> client \<Rightarrow> jsval \<Rightarrow> jsval \<Rightarrow> call" where
  "renewCertificate r this cn callback =
     (if typeof cn \<noteq> ''string'' then Returned (handleError this MISSING_CN cn)
      else Returned (handleRequest r this
        (JObj [(''url'', JStr ''/now/certs''), (''method'', JStr ''post''),
               (''body'', JObj [(''domains'', JArr [cn]), (''renew'', JBool True)])])
        callback JUndefined))"

definition replaceCertificate ::
  "realm \<Rightarrow> client \<Rightarrow> jsval \<Rightarrow> jsval \<Rightarrow> jsval \<Rightarrow> jsval \<Rightarrow> jsval \<Rightarrow> call" where
  "replaceCertificate r this cn cert key ca callback =
     (let (ca', callback') =
            (if typeof ca = ''function'' then (JStr [], ca)
             else if typeof ca = ''string'' then (ca, callback)
             else (JStr [], callback))
      in Returned (handleRequest r this
           (JObj [(''url'', JStr ''/now/certs''), (''method'', JStr ''put''),
                  (''body'', JObj [(''domains'', JArr [cn]), (''ca'', ca'),
                                   (''cert'', cert), (''key'', key)])])
           callback' (JStr ''created'')))"

definition deleteCertificate :: "realm \<Rightarrow> client \<Rightarrow> jsval \<Rightarrow> jsval \<Rightarrow> call" where
  "deleteCertificate r this cn callback =
     (if typeof cn \<noteq> ''string'' then Returned (handleError this MISSING_CN cn)
      else Returned (handleRequest r this
        (JObj [(''url'', JStr (''/now/certs/'' @ js_toString cn)),
               (''method'', JStr ''delete'')])
        callback JUndefined))"

definition getAliases :: "realm \<Rightarrow> client \<Rightarrow> jsval \<Rightarrow> jsval \<Rightarrow> call" where
  "getAliases r this id' callback =
     (let (url, callback') =
            (if typeof id' = ''function'' then (''/now/aliases'', id')
             else if typeof id' = ''string''
               then (''/now/deployments/'' @ js_toString id' @ ''/aliases'', callback)
             else (''/now/aliases'', callback))
      in Returned (handleRequest r this
           (JObj [(''url'', JStr url), (''method'', JStr ''get'')])
           callback' (JStr ''aliases'')))"

definition createAlias :: "realm \<Rightarrow> client \<Rightarrow> jsval \<Rightarrow> jsval \<Rightarrow> jsval \<Rightarrow> call" where
  "createAlias r this id' alias callback =
     (if \<not> truthy id' then Returned (handleError this MISSING_ID callback)
      else if \<not> truthy alias then Returned (handleError this MISSING_ALIAS callback)
      else Returned (handleRequest r this
        (JObj [(''url'', JStr (''/now/deployments/'' @ js_toString id' @ ''/aliases'')),
               (''method'', JStr ''post''),
               (''body'', JObj [(''alias'', alias)])])
        callback JUndefined))"

definition deleteAlias :: "realm \<Rightarrow> client \<Rightarrow> jsval \<Rightarrow> jsval \<Rightarrow> call" where
  "deleteAlias r this id' callback =
     (if \<not> truthy id' then Returned (handleError this MISSING_ID callback)
      else Returned (handleRequest r this
        (JObj [(''url'', JStr (''/now/aliases/'' @ js_toString id')),
               (''method'', JStr ''delete'')])
        callback JUndefined))"

definition getSecrets :: "realm \<Rightarrow> client \<Rightarrow> jsval \<Rightarrow> call" where
  "getSecrets r this callback =
     Returned (handleRequest r this
       (JObj [(''url'', JStr ''/now/secrets''), (''method'', JStr ''get'')])
       callback (JStr ''secrets''))"

definition createSecret :: "realm \<Rightarrow> client \<Rightarrow> jsval \<Rightarrow> jsval \<Rightarrow> jsval \<Rightarrow> call" where
  "createSecret r this name value callback =
     (if \<not> truthy name then Returned (handleError this MISSING_NAME callback)
      else if \<not> truthy value then Returned (handleError this MISSING_VALUE callback)
      else Returned (handleRequest r this
        (JObj [(''url'', JStr ''/now/secrets''), (''method'', JStr ''post''),
               (''body'', JObj [(''name'', name), (''value'', value)])])
        callback JUndefined))"

definition renameSecret :: "realm \<Rightarrow> client \<Rightarrow> jsval \<Rightarrow> jsval \<Rightarrow> jsval \<Rightarrow> call" where
  "renameSecret r this id' name callback =
     (if \<not> truthy id' then Returned (handleError this MISSING_ID callback)
      else if \<not> truthy name then Returned (handleError this MISSING_NAME callback)
      else Returned (handleRequest r this
        (JObj [(''url'', JStr (''/now/secrets/'' @ js_toString id')),
               (''method'', JStr ''patch''),
               (''body'', JObj [(''name'', name)])])
        callback JUndefined))"

definition deleteSecret :: "realm \<Rightarrow> client \<Rightarrow> jsval \<Rightarrow> jsval \<Rightarrow> call" where
  "deleteSecret r this id' callback =
     (if \<not> truthy id' then Returned (handleError this MISSING_ID callback)
      else Returned (handleRequest r this
        (JObj [(''url'', JStr (''/now/secrets/'' @ js_toString id')),
               (''method'', JStr ''delete'')])
        callback JUndefined))"

section \<open>Construction\<close>

text \<open>
  What the constructor reads from outside: the environment variable \<open>NOW_TOKEN\<close> (a
  string, or unset), what \<open>require\<close> of \<open>~/.now.json\<close> does (it throws, \<open>Inl\<close>, when the
  file is missing or is not JSON, and otherwise yields the decoded content), and the
  function \<open>request.defaults\<close> of the HTTP library, which builds a transport from options.
\<close>

record environment =
  NOW_TOKEN :: "string option"
  now_json :: "jsval + jsval"
  request_defaults :: "jsval \<Rightarrow> jsval \<Rightarrow> reply"

datatype source = EnvVar | ConfigFile

text \<open>
  The result of resolving or constructing, with what was written by \<open>console.error\<close>
  and the sources that were read, both in order.
\<close>

record 'a traced =
  result :: 'a
  console :: "string list"
  consulted :: "source list"

text \<open>
  \<open>_getToken\<close> of the source. The \<open>try\<close> block covers both \<open>require\<close> and the read of
  \<open>.token\<close>; when either throws, the message is logged and \<open>token\<close> keeps the falsy
  value read from the environment.
\<close>

definition getToken :: "realm \<Rightarrow> environment \<Rightarrow> jsval traced" where
  "getToken r env =
     (let tok = (case NOW_TOKEN env of None \<Rightarrow> JUndefined | Some s \<Rightarrow> JStr s)
      in if \<not> truthy tok then
           (case (case now_json env of Inl e \<Rightarrow> Inl e | Inr m \<Rightarrow> get_prop r m ''token'') of
              Inr t \<Rightarrow> \<lparr>result = t, console = [], consulted = [EnvVar, ConfigFile]\<rparr>
            | Inl err \<Rightarrow>
                \<lparr>result = tok, console = [''Error: '' @ js_toString err],
                 consulted = [EnvVar, ConfigFile]\<rparr>)
         else \<lparr>result = tok, console = [], consulted = [EnvVar]\<rparr>)"

definition no_token_message :: string where
  "no_token_message =
     ''No token found! '' @
     ''Supply it as argument or use the NOW_TOKEN env variable. '' @
     ''`~/.now.json` will be used, if it'' @ [CHR 0x27] @ ''s found in your home directory.''"

text \<open>
  The binding of the parameter \<open>token = _getToken()\<close>: the default is evaluated only
  when the argument is \<open>undefined\<close>.
\<close>

definition token_param :: "realm \<Rightarrow> jsval \<Rightarrow> environment \<Rightarrow> jsval traced" where
  "token_param r arg env =
     (if arg = JUndefined then getToken r env
      else \<lparr>result = arg, console = [], consulted = []\<rparr>)"

text \<open>The options that the constructor passes to \<open>request.defaults\<close>.\<close>

definition request_options :: "jsval \<Rightarrow> jsval" where
  "request_options tok =
     JObj [(''baseUrl'', JStr ''https://api.zeit.co''),
           (''timeout'', JNum ''30000''),
           (''json'', JBool True),
           (''headers'', JObj [(''Authorization'', JStr (''Bearer '' @ js_toString tok))])]"

text \<open>What an expression \<open>Now(...)\<close> or \<open>new Now(...)\<close> evaluates to.\<close>

datatype constructed = NoInstance | Instance client

text \<open>
  \<open>Now\<close>, called with \<open>new\<close> (\<open>is_new\<close>) or as a plain function. A constructor that
  returns \<open>undefined\<close> yields the object \<open>new\<close> created, here still without fields; a
  plain call yields the returned \<open>undefined\<close>. In a plain call \<open>this\<close> is not an
  instance of \<open>Now\<close>, and the function calls itself with \<open>new\<close> and the token.
\<close>

function Now :: "realm \<Rightarrow> bool \<Rightarrow> jsval \<Rightarrow> environment \<Rightarrow> constructed traced" where
  "Now r is_new arg env =
     (let p = token_param r arg env; tok = result p
      in if \<not> truthy tok then
           \<lparr>result = (if is_new then Instance \<lparr>token = JUndefined, request = None\<rparr>
                      else NoInstance),
            console = console p @ [no_token_message],
            consulted = consulted p\<rparr>
         else if \<not> is_new then
           (let made = Now r True tok env
            in made\<lparr>console := console p @ console made,
                 consulted := consulted p @ consulted made\<rparr>)
         else
           \<lparr>result = Instance
              \<lparr>token = tok,
               request = Some (request_defaults env (request_options tok))\<rparr>,
            console = console p,
            consulted = consulted p\<rparr>)"
  by pat_completeness auto
termination
  by (relation "measure (\<lambda>(r, is_new, arg, env). if is_new then 0 else 1)") auto

section \<open>A realm for the examples\<close>

text \<open>
  The examples below are evaluated in a realm in which every value other than
  \<open>undefined\<close> and \<open>null\<close> inherits the members of \<open>Object.prototype\<close>. A built-in
  function is given by its name and its number of parameters.
\<close>

definition native :: "string \<Rightarrow> nat \<Rightarrow> jsval" where
  "native n k =
     JFun [(''length'', JNum (string_of_nat k)), (''name'', JStr n)]
       (''function '' @ n @ ''() { [native code] }'')"

definition object_prototype :: "(string \<times> jsval) list" where
  "object_prototype =
     [(''constructor'', native ''Object'' 1),
      (''__defineGetter__'', native ''__defineGetter__'' 2),
      (''__defineSetter__'', native ''__defineSetter__'' 2),
      (''hasOwnProperty'', native ''hasOwnProperty'' 1),
      (''__lookupGetter__'', native ''__lookupGetter__'' 1),
      (''__lookupSetter__'', native ''__lookupSetter__'' 1),
      (''isPrototypeOf'', native ''isPrototypeOf'' 1),
      (''propertyIsEnumerable'', native ''propertyIsEnumerable'' 1),
      (''toString'', native ''toString'' 0),
      (''valueOf'', native ''valueOf'' 0),
      (''__proto__'', JObj []),
      (''toLocaleString'', native ''toLocaleString'' 0)]"

definition base_realm :: realm where
  "base_realm v = (if v = JUndefined \<or> v = JNull then [] else object_prototype)"

section \<open>Predicates of the specification\<close>

text \<open>
  A call fails fast with \<open>e\<close>: it returns a promise rejected with \<open>e\<close> and the transport
  was never called.
\<close>

definition rejected_unsent :: "call \<Rightarrow> jsval \<Rightarrow> bool" where
  "rejected_unsent c e =
     (case c of Thrown x \<Rightarrow> False
      | Returned p \<Rightarrow> settled p = Rejected e \<and> requests p = [])"

declare Now.simps [simp del]

section \<open>Auxiliary facts\<close>

lemmas realm_defs = lookup_prop_def props_def own_def base_realm_def object_prototype_def

lemma lookup_own:
  "map_of (own_props v) k = Some x \<Longrightarrow> lookup_prop r v k = x"
  by (simp add: lookup_prop_def props_def)

lemma get_prop_defined:
  "v \<noteq> JUndefined \<Longrightarrow> v \<noteq> JNull \<Longrightarrow> get_prop r v k = Inr (lookup_prop r v k)"
  by (simp add: get_prop_def)

lemma truthy_defined: "truthy v \<Longrightarrow> v \<noteq> JUndefined \<and> v \<noteq> JNull"
  by (cases v) auto

lemma errData_defined:
  "err \<noteq> JUndefined \<Longrightarrow> err \<noteq> JNull \<Longrightarrow>
   errData r err =
     Inr (if truthy (lookup_prop r err ''data'')
             \<and> truthy (lookup_prop r (lookup_prop r err ''data'') ''err'')
          then lookup_prop r (lookup_prop r err ''data'') ''err''
          else if truthy (lookup_prop r err ''data'') then lookup_prop r err ''data''
          else JStr (js_toString err))"
  by (simp add: errData_def get_prop_defined)

lemma handleRequest_rejects:
  "request this = Some send \<Longrightarrow> send config = Rejects err \<Longrightarrow>
   handleRequest r this config callback selector = handleRequest_catch r callback [config] err"
  by (simp add: handleRequest_def)

lemma handleRequest_resolves:
  assumes "request this = Some send" and "send config = Resolves res"
    and "truthy selector \<longrightarrow> res \<noteq> JUndefined \<and> res \<noteq> JNull"
  shows "handleRequest r this config callback selector =
     \<lparr>settled = Fulfilled (if truthy selector then lookup_prop r res (js_toString selector) else res),
      requests = [config],
      callbacks = handleCallback callback JUndefined
        (if truthy selector then lookup_prop r res (js_toString selector) else res)\<rparr>"
  using assms by (simp add: handleRequest_def get_prop_def)

lemma rejected_unsent_handleError:
  "rejected_unsent (Returned (handleError this e callback)) e"
  by (simp add: rejected_unsent_def handleError_def)

lemma token_param_explicit:
  "arg \<noteq> JUndefined \<Longrightarrow> token_param r arg env = \<lparr>result = arg, console = [], consulted = []\<rparr>"
  by (simp add: token_param_def)

lemma Now_new_with_token:
  "truthy tok \<Longrightarrow>
   Now r True tok env =
     \<lparr>result = Instance \<lparr>token = tok,
                          request = Some (request_defaults env (request_options tok))\<rparr>,
      console = [], consulted = []\<rparr>"
  using truthy_defined [of tok]
  by (simp add: Now.simps [of r True tok env] token_param_explicit request_options_def Let_def)

lemma Now_resolved:
  assumes "truthy (result (token_param r arg env))"
  shows "Now r is_new arg env =
     \<lparr>result = Instance
        \<lparr>token = result (token_param r arg env),
         request = Some (request_defaults env (request_options (result (token_param r arg env))))\<rparr>,
      console = console (token_param r arg env),
      consulted = consulted (token_param r arg env)\<rparr>"
proof (cases is_new)
  case True
  with assms show ?thesis
    by (simp add: Now.simps [of r True arg env] request_options_def Let_def)
next
  case False
  with assms show ?thesis
    by (simp add: Now.simps [of r False arg env] Now_new_with_token Let_def)
qed

lemma Now_unresolved:
  assumes "\<not> truthy (result (token_param r arg env))"
  shows "Now r is_new arg env =
     \<lparr>result = (if is_new then Instance \<lparr>token = JUndefined, request = None\<rparr> else NoInstance),
      console = console (token_param r arg env) @ [no_token_message],
      consulted = consulted (token_param r arg env)\<rparr>"
  using assms by (simp add: Now.simps [of r is_new arg env] Let_def)

lemma Now_consulted:
  "consulted (Now r is_new arg env) = consulted (token_param r arg env)"
  by (cases "truthy (result (token_param r arg env))")
     (simp_all add: Now_resolved Now_unresolved)

section \<open>Normalisation of failures\<close>

text \<open>
  Claim C1. When the transport rejects with a failure value \<open>err\<close> that is an object (or
  any value other than \<open>undefined\<close> and \<open>null\<close>), the promise returned by
  \<open>handleRequest\<close> is rejected, and the rejection value is chosen in three tiers, in this
  order: \<open>err.data.err\<close> when \<open>err.data\<close> and \<open>err.data.err\<close> are both truthy; otherwise
  \<open>err.data\<close> when it is truthy; otherwise the string \<open>err.toString()\<close>. This holds for
  every request description, callback and selector.
\<close>

theorem handleRequest_rejection_tiers:
  assumes "request this = Some send" and "send config = Rejects err"
    and "err \<noteq> JUndefined" and "err \<noteq> JNull"
  shows "settled (handleRequest r this config callback selector) =
     Rejected
       (if truthy (lookup_prop r err ''data'')
           \<and> truthy (lookup_prop r (lookup_prop r err ''data'') ''err'')
        then lookup_prop r (lookup_prop r err ''data'') ''err''
        else if truthy (lookup_prop r err ''data'') then lookup_prop r err ''data''
        else JStr (js_toString err))"
  using assms
  by (simp add: handleRequest_rejects handleRequest_catch_def errData_defined)

theorem handleRequest_rejection_tiers_witness:
  "settled (handleRequest base_realm
      \<lparr>token = JStr ''t'',
       request = Some (\<lambda>c. Rejects (JObj [(''data'', JObj [(''err'', JObj [(''code'', JStr ''x'')])])]))\<rparr>
      (JObj [(''url'', JStr ''/now/secrets''), (''method'', JStr ''get'')])
      JUndefined (JStr ''secrets''))
   = Rejected (JObj [(''code'', JStr ''x'')])
  \<and> settled (handleRequest base_realm
      \<lparr>token = JStr ''t'',
       request = Some (\<lambda>c. Rejects (JObj [(''data'', JStr ''plain text'')]))\<rparr>
      (JObj [(''url'', JStr ''/now/secrets''), (''method'', JStr ''get'')])
      JUndefined (JStr ''secrets''))
   = Rejected (JStr ''plain text'')
  \<and> settled (handleRequest base_realm
      \<lparr>token = JStr ''t'',
       request = Some (\<lambda>c. Rejects (JErr [(''name'', JStr ''RequestError''),
                                            (''message'', JStr ''socket hang up'')]))\<rparr>
      (JObj [(''url'', JStr ''/now/secrets''), (''method'', JStr ''get'')])
      JUndefined (JStr ''secrets''))
   = Rejected (JStr ''RequestError: socket hang up'')"
  using
    handleRequest_rejection_tiers
      [of "\<lparr>token = JStr ''t'',
            request = Some (\<lambda>c. Rejects (JObj [(''data'', JObj [(''err'', JObj [(''code'', JStr ''x'')])])]))\<rparr>"
          "\<lambda>c. Rejects (JObj [(''data'', JObj [(''err'', JObj [(''code'', JStr ''x'')])])])"
          "JObj [(''url'', JStr ''/now/secrets''), (''method'', JStr ''get'')]"
          "JObj [(''data'', JObj [(''err'', JObj [(''code'', JStr ''x'')])])]"
          base_realm JUndefined "JStr ''secrets''"]
    handleRequest_rejection_tiers
      [of "\<lparr>token = JStr ''t'',
            request = Some (\<lambda>c. Rejects (JObj [(''data'', JStr ''plain text'')]))\<rparr>"
          "\<lambda>c. Rejects (JObj [(''data'', JStr ''plain text'')])"
          "JObj [(''url'', JStr ''/now/secrets''), (''method'', JStr ''get'')]"
          "JObj [(''data'', JStr ''plain text'')]"
          base_realm JUndefined "JStr ''secrets''"]
    handleRequest_rejection_tiers
      [of "\<lparr>token = JStr ''t'',
            request = Some (\<lambda>c. Rejects (JErr [(''name'', JStr ''RequestError''),
                                                 (''message'', JStr ''socket hang up'')]))\<rparr>"
          "\<lambda>c. Rejects (JErr [(''name'', JStr ''RequestError''),
                                (''message'', JStr ''socket hang up'')])"
          "JObj [(''url'', JStr ''/now/secrets''), (''method'', JStr ''get'')]"
          "JErr [(''name'', JStr ''RequestError''), (''message'', JStr ''socket hang up'')]"
          base_realm JUndefined "JStr ''secrets''"]
  by (simp add: realm_defs)

section \<open>Missing parameters\<close>

text \<open>
  Claim C2. Each of \<open>getDeployment\<close>, \<open>deleteDeployment\<close>, \<open>getFiles\<close>, \<open>getFile\<close>,
  \<open>createDeployment\<close>, \<open>createAlias\<close>, \<open>deleteAlias\<close>, \<open>createSecret\<close>, \<open>renameSecret\<close>
  and \<open>deleteSecret\<close>, called with a required parameter falsy (\<open>absent\<close>), returns a
  promise rejected with the fixed entry of \<open>ERROR\<close> for that parameter and makes no call
  of \<open>this.request\<close>. For a method with two required parameters the first is checked
  first: when it is absent its entry is the rejection whatever the second is (\<open>other\<close>),
  and the second's entry is the rejection when the first is truthy (\<open>present\<close>).
\<close>

theorem missing_parameter_fail_fast:
  assumes "\<not> truthy absent" and "truthy present"
  shows "rejected_unsent (getDeployment r this absent callback) MISSING_ID
    \<and> rejected_unsent (deleteDeployment r this absent callback) MISSING_ID
    \<and> rejected_unsent (getFiles r this absent callback) MISSING_ID
    \<and> rejected_unsent (getFile r this absent other callback) MISSING_ID
    \<and> rejected_unsent (getFile r this present absent callback) MISSING_FILE_ID
    \<and> rejected_unsent (createDeployment r this absent callback) MISSING_BODY
    \<and> rejected_unsent (createAlias r this absent other callback) MISSING_ID
    \<and> rejected_unsent (createAlias r this present absent callback) MISSING_ALIAS
    \<and> rejected_unsent (deleteAlias r this absent callback) MISSING_ID
    \<and> rejected_unsent (createSecret r this absent other callback) MISSING_NAME
    \<and> rejected_unsent (createSecret r this present absent callback) MISSING_VALUE
    \<and> rejected_unsent (renameSecret r this absent other callback) MISSING_ID
    \<and> rejected_unsent (renameSecret r this present absent callback) MISSING_NAME
    \<and> rejected_unsent (deleteSecret r this absent callback) MISSING_ID"
  using assms
  by (simp add: rejected_unsent_handleError getDeployment_def deleteDeployment_def
      getFiles_def getFile_def createDeployment_def createAlias_def deleteAlias_def
      createSecret_def renameSecret_def deleteSecret_def)

theorem missing_parameter_fail_fast_witness:
  "rejected_unsent
     (getDeployment base_realm \<lparr>token = JStr ''t'', request = Some (\<lambda>c. Resolves (JObj []))\<rparr>
        JUndefined JUndefined) MISSING_ID
   \<and> rejected_unsent
     (getFile base_realm \<lparr>token = JStr ''t'', request = Some (\<lambda>c. Resolves (JObj []))\<rparr>
        (JStr ''dpl1'') JUndefined JUndefined) MISSING_FILE_ID
   \<and> rejected_unsent
     (createAlias base_realm \<lparr>token = JStr ''t'', request = Some (\<lambda>c. Resolves (JObj []))\<rparr>
        (JStr ''dpl1'') JUndefined JUndefined) MISSING_ALIAS
   \<and> rejected_unsent
     (createSecret base_realm \<lparr>token = JStr ''t'', request = Some (\<lambda>c. Resolves (JObj []))\<rparr>
        (JStr ''dpl1'') JUndefined JUndefined) MISSING_VALUE"
proof -
  have absent: "\<not> truthy JUndefined" by simp
  have present: "truthy (JStr ''dpl1'')" by simp
  show ?thesis
    using missing_parameter_fail_fast [OF absent present,
        of base_realm
           "\<lparr>token = JStr ''t'', request = Some (\<lambda>c. Resolves (JObj []))\<rparr>"
           JUndefined JUndefined]
    by simp
qed

section \<open>Successful responses\<close>

text \<open>
  Claim C3, as stated, fails. With the selector \<open>deployments\<close> and a response whose
  decoded body is \<open>null\<close>, reading \<open>res[selector]\<close> throws inside the \<open>then\<close> handler, the
  \<open>catch\<close> handler receives the \<open>TypeError\<close>, and the call is rejected with its string
  form. And a selector that is the empty string is falsy: the call resolves with the
  whole body, not with the field named by the empty string.
\<close>

theorem selector_on_null_body_counterexample:
  "settled (handleRequest base_realm
       \<lparr>token = JStr ''t'', request = Some (\<lambda>c. Resolves JNull)\<rparr>
       (JObj [(''url'', JStr ''/now/deployments''), (''method'', JStr ''get'')])
       JUndefined (JStr ''deployments''))
     = Rejected (JStr (''TypeError: Cannot read property '' @ [CHR 0x27] @ ''deployments''
                        @ [CHR 0x27] @ '' of null''))
   \<and> settled (handleRequest base_realm
       \<lparr>token = JStr ''t'', request = Some (\<lambda>c. Resolves (JObj [([], JNum ''1'')]))\<rparr>
       (JObj [(''url'', JStr ''/now/deployments''), (''method'', JStr ''get'')])
       JUndefined (JStr []))
     = Fulfilled (JObj [([], JNum ''1'')])
   \<and> lookup_prop base_realm (JObj [([], JNum ''1'')]) [] = JNum ''1''"
  by (simp add: handleRequest_def handleRequest_catch_def errData_def get_prop_def
      type_error_read_def realm_defs)

text \<open>
  Claim C3, amended. When the transport resolves with \<open>res\<close>: if the selector is truthy
  (a non-empty string) and \<open>res\<close> is neither \<open>undefined\<close> nor \<open>null\<close>, the call resolves
  with \<open>res[selector]\<close>; if the selector is falsy (none was supplied, or the empty
  string), the call resolves with \<open>res\<close> unchanged, whatever \<open>res\<close> is.
\<close>

theorem handleRequest_selects_field:
  assumes "request this = Some send" and "send config = Resolves res"
    and "truthy selector \<longrightarrow> res \<noteq> JUndefined \<and> res \<noteq> JNull"
  shows "settled (handleRequest r this config callback selector) =
     Fulfilled (if truthy selector then lookup_prop r res (js_toString selector) else res)"
  using assms by (simp add: handleRequest_resolves)

theorem handleRequest_selects_field_witness:
  "settled (handleRequest base_realm
       \<lparr>token = JStr ''t'',
        request = Some (\<lambda>c. Resolves (JObj [(''deployments'', JArr [JStr ''A'', JStr ''B''])]))\<rparr>
       (JObj [(''url'', JStr ''/now/deployments''), (''method'', JStr ''get'')])
       JUndefined (JStr ''deployments''))
     = Fulfilled (JArr [JStr ''A'', JStr ''B''])
   \<and> settled (handleRequest base_realm
       \<lparr>token = JStr ''t'',
        request = Some (\<lambda>c. Resolves (JObj [(''deployments'', JArr [JStr ''A'', JStr ''B''])]))\<rparr>
       (JObj [(''url'', JStr ''/now/deployments''), (''method'', JStr ''get'')])
       JUndefined JUndefined)
     = Fulfilled (JObj [(''deployments'', JArr [JStr ''A'', JStr ''B''])])"
  using
    handleRequest_selects_field
      [of "\<lparr>token = JStr ''t'',
            request = Some (\<lambda>c. Resolves (JObj [(''deployments'', JArr [JStr ''A'', JStr ''B''])]))\<rparr>"
          "\<lambda>c. Resolves (JObj [(''deployments'', JArr [JStr ''A'', JStr ''B''])])"
          "JObj [(''url'', JStr ''/now/deployments''), (''method'', JStr ''get'')]"
          "JObj [(''deployments'', JArr [JStr ''A'', JStr ''B''])]"
          "JStr ''deployments''" base_realm JUndefined]
    handleRequest_selects_field
      [of "\<lparr>token = JStr ''t'',
            request = Some (\<lambda>c. Resolves (JObj [(''deployments'', JArr [JStr ''A'', JStr ''B''])]))\<rparr>"
          "\<lambda>c. Resolves (JObj [(''deployments'', JArr [JStr ''A'', JStr ''B''])])"
          "JObj [(''url'', JStr ''/now/deployments''), (''method'', JStr ''get'')]"
          "JObj [(''deployments'', JArr [JStr ''A'', JStr ''B''])]"
          JUndefined base_realm JUndefined]
  by (simp add: realm_defs)

text \<open>
  Claim C10, as stated, fails. A response with an empty body is decoded to \<open>undefined\<close>;
  \<open>getSecrets\<close> then reads the field \<open>secrets\<close> of \<open>undefined\<close>, and the call, whose
  request had succeeded, is rejected.
\<close>

theorem getSecrets_empty_body_counterexample:
  "getSecrets base_realm \<lparr>token = JStr ''t'', request = Some (\<lambda>c. Resolves JUndefined)\<rparr> JUndefined
     = Returned
         \<lparr>settled = Rejected (JStr (''TypeError: Cannot read property '' @ [CHR 0x27]
                                      @ ''secrets'' @ [CHR 0x27] @ '' of undefined'')),
          requests = [JObj [(''url'', JStr ''/now/secrets''), (''method'', JStr ''get'')]],
          callbacks = []\<rparr>"
  by (simp add: getSecrets_def handleRequest_def handleRequest_catch_def errData_def
      get_prop_def type_error_read_def realm_defs handleCallback_def)

text \<open>
  Claim C10, amended. When a truthy selector is supplied and the body \<open>res\<close> of the
  successful response is neither \<open>undefined\<close> nor \<open>null\<close>, the call is fulfilled with
  what the read \<open>res[selector]\<close> finds and is not rejected with any value: the lookup
  never turns such a response into an error. In particular, when \<open>res\<close> has no property
  of that name, neither its own nor inherited, the call is fulfilled with \<open>undefined\<close>.
\<close>

theorem selector_lookup_never_rejects:
  assumes "request this = Some send" and "send config = Resolves res"
    and "res \<noteq> JUndefined" and "res \<noteq> JNull" and "truthy selector"
  shows "settled (handleRequest r this config callback selector)
       = Fulfilled (lookup_prop r res (js_toString selector))
   \<and> (\<forall>e. settled (handleRequest r this config callback selector) \<noteq> Rejected e)
   \<and> settled (handleRequest r this config callback selector) \<noteq> Pending
   \<and> (map_of (props r res) (js_toString selector) = None \<longrightarrow>
        settled (handleRequest r this config callback selector) = Fulfilled JUndefined)"
  using assms by (simp add: handleRequest_resolves lookup_prop_def)

theorem selector_lookup_never_rejects_witness:
  "settled (handleRequest base_realm
       \<lparr>token = JStr ''t'', request = Some (\<lambda>c. Resolves (JObj [(''total'', JNum ''0'')]))\<rparr>
       (JObj [(''url'', JStr ''/now/secrets''), (''method'', JStr ''get'')])
       JUndefined (JStr ''secrets''))
     = Fulfilled JUndefined
   \<and> settled (handleRequest base_realm
       \<lparr>token = JStr ''t'', request = Some (\<lambda>c. Resolves (JObj []))\<rparr>
       (JObj [(''url'', JStr ''/now/secrets''), (''method'', JStr ''get'')])
       JUndefined (JStr ''constructor''))
     = Fulfilled (native ''Object'' 1)
   \<and> settled (handleRequest base_realm
       \<lparr>token = JStr ''t'', request = Some (\<lambda>c. Resolves (JStr ''<html>''))\<rparr>
       (JObj [(''url'', JStr ''/now/secrets''), (''method'', JStr ''get'')])
       JUndefined (JStr ''secrets''))
     = Fulfilled JUndefined"
proof -
  have absent: "map_of (props base_realm (JObj [(''total'', JNum ''0'')]))
      (js_toString (JStr ''secrets'')) = None"
    by (simp add: realm_defs)
  have absent': "map_of (props base_realm (JStr ''<html>''))
      (js_toString (JStr ''secrets'')) = None"
    by (simp add: realm_defs native_def)
  have inherited: "lookup_prop base_realm (JObj []) (js_toString (JStr ''constructor''))
      = native ''Object'' 1"
    by (simp add: realm_defs)
  from absent absent' inherited
    selector_lookup_never_rejects
      [of "\<lparr>token = JStr ''t'', request = Some (\<lambda>c. Resolves (JObj [(''total'', JNum ''0'')]))\<rparr>"
          "\<lambda>c. Resolves (JObj [(''total'', JNum ''0'')])"
          "JObj [(''url'', JStr ''/now/secrets''), (''method'', JStr ''get'')]"
          "JObj [(''total'', JNum ''0'')]" "JStr ''secrets''" base_realm JUndefined]
    selector_lookup_never_rejects
      [of "\<lparr>token = JStr ''t'', request = Some (\<lambda>c. Resolves (JObj []))\<rparr>"
          "\<lambda>c. Resolves (JObj [])"
          "JObj [(''url'', JStr ''/now/secrets''), (''method'', JStr ''get'')]"
          "JObj []" "JStr ''constructor''" base_realm JUndefined]
    selector_lookup_never_rejects
      [of "\<lparr>token = JStr ''t'', request = Some (\<lambda>c. Resolves (JStr ''<html>''))\<rparr>"
          "\<lambda>c. Resolves (JStr ''<html>'')"
          "JObj [(''url'', JStr ''/now/secrets''), (''method'', JStr ''get'')]"
          "JStr ''<html>''" "JStr ''secrets''" base_realm JUndefined]
  show ?thesis
    by (auto simp add: lookup_prop_def [of base_realm])
qed

section \<open>Synchronous throws\<close>

text \<open>
  Claim C4 says that no public operation throws synchronously. \<open>addDomain\<close> called
  without its \<open>domain\<close> argument does: the read of \<open>domain.name\<close> throws a \<open>TypeError\<close>
  out of the method, before any promise exists. Its sibling \<open>deleteDomain\<close>, called
  without its \<open>name\<close> argument, returns a promise rejected with \<open>MISSING_NAME\<close>.
\<close>

theorem addDomain_without_domain_throws:
  "addDomain r this JUndefined callback = Thrown (type_error_read JUndefined ''name'')
   \<and> js_toString (type_error_read JUndefined ''name'')
       = ''TypeError: Cannot read property '' @ [CHR 0x27] @ ''name'' @ [CHR 0x27]
           @ '' of undefined''
   \<and> deleteDomain r this JUndefined callback
       = Returned (handleError this MISSING_NAME callback)"
  by (simp add: addDomain_def deleteDomain_def get_prop_def type_error_read_def)

section \<open>The error table and the alias code\<close>

text \<open>
  Claim C5. \<open>createAlias\<close> with a truthy \<open>id\<close> and a falsy \<open>alias\<close> rejects with the entry
  \<open>MISSING_ALIAS\<close>, whose code is \<open>missing_body\<close>, the code of \<open>MISSING_BODY\<close>, while its
  message names the \<open>alias\<close> parameter. The codes of the other entries are
  \<open>missing_id\<close>, \<open>missing_file_id\<close>, \<open>missing_cn\<close>, \<open>missing_name\<close> and \<open>missing_value\<close>, and
  together with \<open>missing_body\<close> they are pairwise distinct.
\<close>

theorem alias_error_reuses_body_code:
  assumes "truthy id'" and "\<not> truthy alias"
  shows "createAlias r this id' alias callback
       = Returned (handleError this MISSING_ALIAS callback)
   \<and> settled (handleError this MISSING_ALIAS callback) = Rejected MISSING_ALIAS
   \<and> lookup_prop r MISSING_ALIAS ''code'' = JStr ''missing_body''
   \<and> lookup_prop r MISSING_ALIAS ''code'' = lookup_prop r MISSING_BODY ''code''
   \<and> lookup_prop r MISSING_ALIAS ''message'' = JStr ''Missing `alias` parameter''
   \<and> lookup_prop r MISSING_BODY ''message'' = JStr ''Missing `body` parameter''
   \<and> map (\<lambda>e. lookup_prop r e ''code'')
        [MISSING_ID, MISSING_FILE_ID, MISSING_CN, MISSING_NAME, MISSING_VALUE]
       = [JStr ''missing_id'', JStr ''missing_file_id'', JStr ''missing_cn'',
          JStr ''missing_name'', JStr ''missing_value'']
   \<and> distinct (map (\<lambda>e. lookup_prop r e ''code'')
        [MISSING_ID, MISSING_FILE_ID, MISSING_BODY, MISSING_CN, MISSING_NAME,
         MISSING_VALUE])"
  using assms
  by (simp add: createAlias_def handleError_def lookup_own own_def MISSING_ID_def
      MISSING_FILE_ID_def MISSING_BODY_def MISSING_CN_def MISSING_ALIAS_def
      MISSING_NAME_def MISSING_VALUE_def)

theorem alias_error_reuses_body_code_witness:
  "createAlias base_realm \<lparr>token = JStr ''t'', request = Some (\<lambda>c. Resolves (JObj []))\<rparr>
      (JStr ''dpl_1'') JUndefined JUndefined
     = Returned
         \<lparr>settled = Rejected
            (JObj [(''code'', JStr ''missing_body''),
                   (''message'', JStr ''Missing `alias` parameter'')]),
          requests = [], callbacks = []\<rparr>"
proof -
  have present: "truthy (JStr ''dpl_1'')" and absent: "\<not> truthy JUndefined"
    by simp_all
  from alias_error_reuses_body_code [OF present absent]
  show ?thesis
    by (simp add: handleError_def handleCallback_def MISSING_ALIAS_def)
qed

section \<open>Certificates\<close>

text \<open>
  Claim C6. \<open>getCertificates\<close> with a function as first argument requests
  \<open>/now/certs\<close> and uses that function as the callback; with a string \<open>cn\<close> as first
  argument it requests \<open>/now/certs/<cn>\<close> and uses the second argument as the callback.
  In both cases the call is \<open>handleRequest\<close> with the selector \<open>certs\<close>, so that a
  response with a body resolves to its field \<open>certs\<close>.
\<close>

theorem getCertificates_dispatch:
  assumes "request this = Some send"
    and "send (JObj [(''url'', JStr ''/now/certs''), (''method'', JStr ''get'')]) = Resolves res"
    and "send (JObj [(''url'', JStr (''/now/certs/'' @ cn)), (''method'', JStr ''get'')])
           = Resolves res'"
    and "res \<noteq> JUndefined" and "res \<noteq> JNull" and "res' \<noteq> JUndefined" and "res' \<noteq> JNull"
  shows "getCertificates r this (JFun fs src) callback
       = Returned (handleRequest r this
           (JObj [(''url'', JStr ''/now/certs''), (''method'', JStr ''get'')])
           (JFun fs src) (JStr ''certs''))
   \<and> getCertificates r this (JFun fs src) callback
       = Returned
           \<lparr>settled = Fulfilled (lookup_prop r res ''certs''),
            requests = [JObj [(''url'', JStr ''/now/certs''), (''method'', JStr ''get'')]],
            callbacks = [(JFun fs src, JUndefined, lookup_prop r res ''certs'')]\<rparr>
   \<and> getCertificates r this (JStr cn) callback
       = Returned (handleRequest r this
           (JObj [(''url'', JStr (''/now/certs/'' @ cn)), (''method'', JStr ''get'')])
           callback (JStr ''certs''))
   \<and> getCertificates r this (JStr cn) callback
       = Returned
           \<lparr>settled = Fulfilled (lookup_prop r res' ''certs''),
            requests = [JObj [(''url'', JStr (''/now/certs/'' @ cn)),
                              (''method'', JStr ''get'')]],
            callbacks = handleCallback callback JUndefined (lookup_prop r res' ''certs'')\<rparr>"
  using assms
  by (simp add: getCertificates_def handleRequest_resolves handleCallback_def)


theorem getCertificates_dispatch_witness:
  "getCertificates base_realm
      \<lparr>token = JStr ''t'',
       request = Some (\<lambda>c. Resolves (JObj [(''certs'', JArr [JStr ''zeit.co''])]))\<rparr>
      (JFun [] ''function (err, certs) {}'') JUndefined
     = Returned
         \<lparr>settled = Fulfilled (JArr [JStr ''zeit.co'']),
          requests = [JObj [(''url'', JStr ''/now/certs''), (''method'', JStr ''get'')]],
          callbacks = [(JFun [] ''function (err, certs) {}'', JUndefined,
                        JArr [JStr ''zeit.co''])]\<rparr>
   \<and> getCertificates base_realm
      \<lparr>token = JStr ''t'',
       request = Some (\<lambda>c. Resolves (JObj [(''certs'', JArr [JStr ''zeit.co''])]))\<rparr>
      (JStr ''zeit.co'') (JFun [] ''function (err, certs) {}'')
     = Returned
         \<lparr>settled = Fulfilled (JArr [JStr ''zeit.co'']),
          requests = [JObj [(''url'', JStr ''/now/certs/zeit.co''),
                            (''method'', JStr ''get'')]],
          callbacks = [(JFun [] ''function (err, certs) {}'', JUndefined,
                        JArr [JStr ''zeit.co''])]\<rparr>"
  using getCertificates_dispatch
    [of "\<lparr>token = JStr ''t'',
          request = Some (\<lambda>c. Resolves (JObj [(''certs'', JArr [JStr ''zeit.co''])]))\<rparr>"
        "\<lambda>c. Resolves (JObj [(''certs'', JArr [JStr ''zeit.co''])])"
        "JObj [(''certs'', JArr [JStr ''zeit.co''])]"
        "''zeit.co''"
        "JObj [(''certs'', JArr [JStr ''zeit.co''])]"
        base_realm "[]" "''function (err, certs) {}''" JUndefined]
    getCertificates_dispatch
    [of "\<lparr>token = JStr ''t'',
          request = Some (\<lambda>c. Resolves (JObj [(''certs'', JArr [JStr ''zeit.co''])]))\<rparr>"
        "\<lambda>c. Resolves (JObj [(''certs'', JArr [JStr ''zeit.co''])])"
        "JObj [(''certs'', JArr [JStr ''zeit.co''])]"
        "''zeit.co''"
        "JObj [(''certs'', JArr [JStr ''zeit.co''])]"
        base_realm "[]" "''function (err, certs) {}''" "JFun [] ''function (err, certs) {}''"]
  by (auto simp add: realm_defs handleCallback_def)

section \<open>Construction and credentials\<close>

text \<open>
  Claim C7. When the token that the constructor resolves is falsy, \<open>Now\<close> returns
  normally: the last line written to the console is the message that no token was
  found, a plain call yields no instance, and \<open>new\<close> yields an instance on which neither
  \<open>token\<close> nor \<open>request\<close> was set. A request through such an instance never reaches a
  transport and is rejected.
\<close>

theorem Now_without_credential:
  assumes "\<not> truthy (result (token_param r arg env))"
  shows "result (Now r False arg env) = NoInstance
   \<and> result (Now r True arg env) = Instance \<lparr>token = JUndefined, request = None\<rparr>
   \<and> console (Now r is_new arg env) = console (token_param r arg env) @ [no_token_message]
   \<and> requests (handleRequest r \<lparr>token = JUndefined, request = None\<rparr> config callback selector) = []
   \<and> settled (handleRequest r \<lparr>token = JUndefined, request = None\<rparr> config callback selector)
       = Rejected (type_error_call ''this.request'')"
  using assms by (simp add: Now_unresolved handleRequest_def)

theorem Now_without_credential_witness:
  "result (Now base_realm False JUndefined
      \<lparr>NOW_TOKEN = None,
       now_json = Inl (JErr [(''message'', JStr ''Cannot find module'')]),
       request_defaults = (\<lambda>opts c. Resolves (JObj []))\<rparr>) = NoInstance
   \<and> result (Now base_realm True JUndefined
      \<lparr>NOW_TOKEN = None,
       now_json = Inl (JErr [(''message'', JStr ''Cannot find module'')]),
       request_defaults = (\<lambda>opts c. Resolves (JObj []))\<rparr>)
     = Instance \<lparr>token = JUndefined, request = None\<rparr>
   \<and> console (Now base_realm True JUndefined
      \<lparr>NOW_TOKEN = None,
       now_json = Inl (JErr [(''message'', JStr ''Cannot find module'')]),
       request_defaults = (\<lambda>opts c. Resolves (JObj []))\<rparr>)
     = [''Error: Error: Cannot find module'', no_token_message]"
proof -
  have "\<not> truthy (result (token_param base_realm JUndefined
      \<lparr>NOW_TOKEN = None,
       now_json = Inl (JErr [(''message'', JStr ''Cannot find module'')]),
       request_defaults = (\<lambda>opts c. Resolves (JObj []))\<rparr>))"
    by (simp add: token_param_def getToken_def)
  from Now_without_credential [OF this, of True]
  show ?thesis
    by (simp add: token_param_def getToken_def)
qed

text \<open>
  Claim C8. The token is resolved in this order. An argument other than \<open>undefined\<close> is
  the token, and no other source is read. Without an argument, a non-empty \<open>NOW_TOKEN\<close>
  is the token, and only the environment is read. With \<open>NOW_TOKEN\<close> unset or empty, the
  token is the field \<open>token\<close> of the content of \<open>~/.now.json\<close>, read after the
  environment. The constructor reads exactly the sources that this resolution reads, and
  a truthy resolved token is the \<open>token\<close> of the instance.
\<close>

theorem token_precedence:
  "(arg \<noteq> JUndefined \<longrightarrow>
      token_param r arg env = \<lparr>result = arg, console = [], consulted = []\<rparr>)
   \<and> (arg = JUndefined \<and> NOW_TOKEN env = Some s \<and> s \<noteq> [] \<longrightarrow>
      token_param r arg env = \<lparr>result = JStr s, console = [], consulted = [EnvVar]\<rparr>)
   \<and> (arg = JUndefined \<and> (NOW_TOKEN env = None \<or> NOW_TOKEN env = Some [])
        \<and> now_json env = Inr m \<and> m \<noteq> JUndefined \<and> m \<noteq> JNull \<longrightarrow>
      token_param r arg env =
        \<lparr>result = lookup_prop r m ''token'', console = [],
         consulted = [EnvVar, ConfigFile]\<rparr>)
   \<and> consulted (Now r is_new arg env) = consulted (token_param r arg env)
   \<and> (truthy (result (token_param r arg env)) \<longrightarrow>
        result (Now r is_new arg env) =
          Instance \<lparr>token = result (token_param r arg env),
                    request = Some (request_defaults env
                      (request_options (result (token_param r arg env))))\<rparr>)"
proof (intro conjI impI)
  assume "arg \<noteq> JUndefined"
  then show "token_param r arg env = \<lparr>result = arg, console = [], consulted = []\<rparr>"
    by (rule token_param_explicit)
next
  assume "arg = JUndefined \<and> NOW_TOKEN env = Some s \<and> s \<noteq> []"
  then show "token_param r arg env = \<lparr>result = JStr s, console = [], consulted = [EnvVar]\<rparr>"
    by (simp add: token_param_def getToken_def)
next
  assume "arg = JUndefined \<and> (NOW_TOKEN env = None \<or> NOW_TOKEN env = Some [])
            \<and> now_json env = Inr m \<and> m \<noteq> JUndefined \<and> m \<noteq> JNull"
  then show "token_param r arg env =
      \<lparr>result = lookup_prop r m ''token'', console = [], consulted = [EnvVar, ConfigFile]\<rparr>"
    by (auto simp add: token_param_def getToken_def get_prop_def)
next
  show "consulted (Now r is_new arg env) = consulted (token_param r arg env)"
    by (rule Now_consulted)
next
  assume "truthy (result (token_param r arg env))"
  then show "result (Now r is_new arg env) =
      Instance \<lparr>token = result (token_param r arg env),
                request = Some (request_defaults env
                  (request_options (result (token_param r arg env))))\<rparr>"
    by (simp add: Now_resolved)
qed

theorem token_precedence_witness:
  "token_param base_realm (JStr ''from-argument'')
      \<lparr>NOW_TOKEN = Some ''from-env'',
       now_json = Inr (JObj [(''token'', JStr ''from-file'')]),
       request_defaults = (\<lambda>opts c. Resolves opts)\<rparr>
     = \<lparr>result = JStr ''from-argument'', console = [], consulted = []\<rparr>
   \<and> token_param base_realm JUndefined
      \<lparr>NOW_TOKEN = Some ''from-env'',
       now_json = Inr (JObj [(''token'', JStr ''from-file'')]),
       request_defaults = (\<lambda>opts c. Resolves opts)\<rparr>
     = \<lparr>result = JStr ''from-env'', console = [], consulted = [EnvVar]\<rparr>
   \<and> token_param base_realm JUndefined
      \<lparr>NOW_TOKEN = None,
       now_json = Inr (JObj [(''token'', JStr ''from-file'')]),
       request_defaults = (\<lambda>opts c. Resolves opts)\<rparr>
     = \<lparr>result = JStr ''from-file'', console = [], consulted = [EnvVar, ConfigFile]\<rparr>
   \<and> result (Now base_realm False JUndefined
      \<lparr>NOW_TOKEN = None,
       now_json = Inr (JObj [(''token'', JStr ''from-file'')]),
       request_defaults = (\<lambda>opts c. Resolves opts)\<rparr>)
     = Instance
         \<lparr>token = JStr ''from-file'',
          request = Some (\<lambda>c. Resolves (request_options (JStr ''from-file'')))\<rparr>"
  using
    token_precedence
      [of "JStr ''from-argument''" base_realm
          "\<lparr>NOW_TOKEN = Some ''from-env'',
            now_json = Inr (JObj [(''token'', JStr ''from-file'')]),
            request_defaults = (\<lambda>opts c. Resolves opts)\<rparr>"
          "''from-env''" "JObj [(''token'', JStr ''from-file'')]" False]
    token_precedence
      [of JUndefined base_realm
          "\<lparr>NOW_TOKEN = Some ''from-env'',
            now_json = Inr (JObj [(''token'', JStr ''from-file'')]),
            request_defaults = (\<lambda>opts c. Resolves opts)\<rparr>"
          "''from-env''" "JObj [(''token'', JStr ''from-file'')]" False]
    token_precedence
      [of JUndefined base_realm
          "\<lparr>NOW_TOKEN = None,
            now_json = Inr (JObj [(''token'', JStr ''from-file'')]),
            request_defaults = (\<lambda>opts c. Resolves opts)\<rparr>"
          "''from-env''" "JObj [(''token'', JStr ''from-file'')]" False]
  by (auto simp add: realm_defs)

text \<open>
  Claim C9. When the resolved token is truthy, calling \<open>Now\<close> as a plain function gives
  what calling it with \<open>new\<close> gives: an instance whose \<open>token\<close> is the resolved token and
  whose \<open>request\<close> is the transport built from the options for that token, with the same
  console output and the same sources read.
\<close>

theorem Now_plain_call_equals_new:
  assumes "truthy (result (token_param r arg env))"
  shows "Now r False arg env = Now r True arg env
   \<and> result (Now r False arg env) =
       Instance \<lparr>token = result (token_param r arg env),
                 request = Some (request_defaults env
                   (request_options (result (token_param r arg env))))\<rparr>"
  using assms by (simp add: Now_resolved)

theorem Now_plain_call_equals_new_witness:
  "Now base_realm False (JStr ''secret'')
      \<lparr>NOW_TOKEN = None, now_json = Inl (JStr ''ENOENT''),
       request_defaults = (\<lambda>opts c. Resolves opts)\<rparr>
     = Now base_realm True (JStr ''secret'')
      \<lparr>NOW_TOKEN = None, now_json = Inl (JStr ''ENOENT''),
       request_defaults = (\<lambda>opts c. Resolves opts)\<rparr>
   \<and> result (Now base_realm False (JStr ''secret'')
      \<lparr>NOW_TOKEN = None, now_json = Inl (JStr ''ENOENT''),
       request_defaults = (\<lambda>opts c. Resolves opts)\<rparr>)
     = Instance
         \<lparr>token = JStr ''secret'',
          request = Some (\<lambda>c. Resolves (request_options (JStr ''secret'')))\<rparr>"
proof -
  have "truthy (result (token_param base_realm (JStr ''secret'')
      \<lparr>NOW_TOKEN = None, now_json = Inl (JStr ''ENOENT''),
       request_defaults = (\<lambda>opts c. Resolves opts)\<rparr>))"
    by (simp add: token_param_def)
  from Now_plain_call_equals_new [OF this]
  show ?thesis
    by (auto simp add: token_param_def)
qed

end
